theory Spec2Isabelle
  imports Main "HOL-Library.Word" "HOL-Library.Char_ord" "HOL-Library.List_Lexorder"
    "HOL-Library.AList"
begin

unbundle bit_operations_syntax

section \<open>Data model of the archiver (internal/archiver/archiver.go)\<close>

subsection \<open>Values of the Go runtime and of package restic\<close>

text \<open>
  A \<^verbatim>\<open>time.Time\<close> is an instant in whole nanoseconds together with a location.
  \<^verbatim>\<open>Time.Equal\<close> compares the instants only; the location does not take part.
\<close>

record gotime =
  instant :: int
  loc :: string

definition time_Equal :: "gotime \<Rightarrow> gotime \<Rightarrow> bool" where
  "time_Equal t u = (instant t = instant u)"

text \<open>Errors are values. \<^verbatim>\<open>*os.PathError\<close> carries the operation, the path and an errno.\<close>

datatype errno = ELOOP | ENXIO | EACCES | ENOENT | ENOTDIR | EIO

datatype error =
    PathError string string errno
  | ErrorString string
  | Wrapped error string

text \<open>\<^verbatim>\<open>errors.Wrap(err, msg)\<close> is nil when \<^verbatim>\<open>err\<close> is nil.\<close>

definition errors_Wrap :: "error option \<Rightarrow> string \<Rightarrow> error option" where
  "errors_Wrap err msg = (case err of None \<Rightarrow> None | Some e \<Rightarrow> Some (Wrapped e msg))"

type_synonym ID = "8 word list"

text \<open>
  Go's fixed-width integers are words. An \<^verbatim>\<open>int64\<close> is a 64-bit word read in
  two's complement (\<open>sint\<close>), a \<^verbatim>\<open>uint64\<close> the same word read unsigned
  (\<open>unat\<close>); \<^verbatim>\<open>int\<close> is 64 bits wide on the platforms restic supports.
\<close>

type_synonym int64 = "64 word"
type_synonym uint64 = "64 word"
type_synonym uint32 = "32 word"

text \<open>
  \<^verbatim>\<open>fs.ExtendedFileInfo\<close>, the result of \<^verbatim>\<open>fs.ExtendedStat(fi)\<close>: the fields that
  \<^verbatim>\<open>fileChanged\<close> reads.
\<close>

record ExtendedFileInfo =
  ext_Inode :: uint64
  ext_Size :: int64

text \<open>
  An \<^verbatim>\<open>os.FileInfo\<close>. \<^verbatim>\<open>Size()\<close> is an \<^verbatim>\<open>int64\<close>, \<^verbatim>\<open>Mode()\<close> an
  \<^verbatim>\<open>os.FileMode\<close> (\<^verbatim>\<open>uint32\<close>). \<^verbatim>\<open>fs.ExtendedStat\<close> is a function of the file info;
  its result is kept in the field \<open>fi_ExtendedStat\<close>.
\<close>

record FileInfo =
  fi_Name :: string
  fi_Size :: int64
  fi_Mode :: uint32
  fi_ModTime :: gotime
  fi_ExtendedStat :: ExtendedFileInfo

text \<open>
  Modelled from the spec: the type \<^verbatim>\<open>restic.Node\<close> (declared in package restic), with
  the attributes the spec's data model lists. \<^verbatim>\<open>Size\<close> and \<^verbatim>\<open>Inode\<close> are
  \<^verbatim>\<open>uint64\<close>, \<^verbatim>\<open>Subtree\<close> is a \<^verbatim>\<open>*restic.ID\<close>.
\<close>

record Node =
  Name :: string
  Type :: string
  Mode :: uint32
  ModTime :: gotime
  AccessTime :: gotime
  ChangeTime :: gotime
  UID :: uint32
  GID :: uint32
  User :: string
  Group :: string
  Inode :: uint64
  DeviceID :: uint64
  Size :: uint64
  LinkTarget :: string
  Content :: "ID list"
  Subtree :: "ID option"

text \<open>Modelled from the spec: the type \<^verbatim>\<open>restic.Tree\<close>, a sequence of nodes.\<close>

record Tree =
  Nodes :: "Node list"

definition NewTree :: Tree where
  "NewTree = \<lparr>Nodes = []\<rparr>"

subsection \<open>ItemStats\<close>

record ItemStats =
  DataBlobs :: int64
  DataSize :: uint64
  TreeBlobs :: int64
  TreeSize :: uint64

definition ItemStats_zero :: ItemStats where
  "ItemStats_zero = \<lparr>DataBlobs = 0, DataSize = 0, TreeBlobs = 0, TreeSize = 0\<rparr>"

definition ItemStats_Add :: "ItemStats \<Rightarrow> ItemStats \<Rightarrow> ItemStats" where
  "ItemStats_Add s other =
     \<lparr>DataBlobs = DataBlobs s + DataBlobs other,
      DataSize = DataSize s + DataSize other,
      TreeBlobs = TreeBlobs s + TreeBlobs other,
      TreeSize = TreeSize s + TreeSize other\<rparr>"

section \<open>fileChanged\<close>

text \<open>
  \<^verbatim>\<open>uint64(x)\<close> of an \<^verbatim>\<open>int64\<close> keeps the 64 bits and reads them unsigned.
\<close>

definition uint64_of_int64 :: "int64 \<Rightarrow> uint64" where
  "uint64_of_int64 x = word_of_int (sint x)"

definition fileChanged :: "FileInfo \<Rightarrow> Node option \<Rightarrow> bool" where
  "fileChanged fi node =
     (case node of
        None \<Rightarrow> True
      | Some n \<Rightarrow>
          if Type n \<noteq> ''file'' then True
          else if \<not> time_Equal (fi_ModTime fi) (ModTime n) then True
          else
            (let extFI = fi_ExtendedStat fi in
             if uint64_of_int64 (fi_Size fi) \<noteq> Size n \<or> uint64_of_int64 (ext_Size extFI) \<noteq> Size n
             then True
             else if Inode n \<noteq> ext_Inode extFI then True
             else False))"


section \<open>Collaborators of the archiver\<close>

text \<open>
  An open \<^verbatim>\<open>fs.File\<close>: what its methods return. The filesystem does not change
  while the archiver runs.
\<close>

record handle =
  h_path :: string
  h_Stat :: "error + FileInfo"
  h_Readdirnames :: "error + string list"
  h_Close :: "error option"

datatype BlobType = DataBlob | TreeBlob

text \<open>
  The result of \<^verbatim>\<open>fileSaver.Save\<close>, a \<^verbatim>\<open>FutureFile\<close>: the values that
  \<^verbatim>\<open>Node()\<close>, \<^verbatim>\<open>Stats()\<close> and \<^verbatim>\<open>Err()\<close> yield once the worker is done.
\<close>

record FutureFile =
  ff_node :: "Node option"
  ff_stats :: ItemStats
  ff_err :: "error option"

text \<open>
  What the archiver does to the outside, in order: calls on the filesystem and on
  file handles, the callbacks \<^verbatim>\<open>CompleteItem\<close> and \<^verbatim>\<open>CompleteBlob\<close>, the
  submissions to the FileSaver and to the BlobSaver. The callbacks that the FileSaver
  runs from its workers are not part of it.
\<close>

datatype event =
    EvOpenFile string
  | EvLstat string
  | EvStat string
  | EvFileStat handle
  | EvReaddirnames handle
  | EvClose handle
  | EvCompleteItem string "Node option" "Node option" ItemStats
  | EvCompleteBlob string uint64
  | EvFileSaverSave string "handle option" FileInfo
  | EvBlobSaverSave BlobType "8 word list"

text \<open>
  Modelled from the spec: the type \<^verbatim>\<open>archiver.Tree\<close> (tree.go), the PathTree. A leaf
  has a non-empty \<^verbatim>\<open>Path\<close>; an intermediate node has children and a
  \<^verbatim>\<open>FileInfoPath\<close>. \<^verbatim>\<open>Nodes\<close> is a Go map; the list gives its entries in the order
  in which \<^verbatim>\<open>range\<close> visits them.
\<close>

datatype PathTree =
  PathTree (pt_Nodes: "(string \<times> PathTree) list") (pt_Path: string) (pt_FileInfoPath: string)

text \<open>Modelled from the spec: the type \<^verbatim>\<open>restic.Snapshot\<close>.\<close>

record Snapshot =
  sn_Time :: gotime
  sn_Parent :: "ID option"
  sn_Tree :: "ID option"
  sn_Paths :: "string list"
  sn_Hostname :: string
  sn_Excludes :: "string list"
  sn_Tags :: "string list"

record SnapshotOptions =
  so_Tags :: "string list"
  so_Hostname :: string
  so_Excludes :: "string list"
  so_Time :: gotime
  so_ParentSnapshot :: ID

text \<open>
  The code outside archiver.go that the archiver calls, as parameters: the filesystem
  (\<^verbatim>\<open>fs.FS\<close>), \<^verbatim>\<open>path.Join\<close>, \<^verbatim>\<open>pathComponents\<close> and \<^verbatim>\<open>NewTree\<close> of
  tree.go, \<^verbatim>\<open>fs.IsRegularFile\<close>, package restic (\<^verbatim>\<open>NodeFromFileInfo\<close>,
  \<^verbatim>\<open>Tree.Find\<close>, \<^verbatim>\<open>Tree.Insert\<close>, \<^verbatim>\<open>LoadSnapshot\<close>, \<^verbatim>\<open>NewSnapshot\<close>,
  \<^verbatim>\<open>ID.IsNull\<close>), \<^verbatim>\<open>json.Marshal\<close> on a tree, the repository and the two worker
  pools. A call that returns \<^verbatim>\<open>(value, error)\<close> yields the error or the value.
  \<^verbatim>\<open>restic.NodeFromFileInfo\<close> yields a node also beside an error: archiver.go writes to
  the node before it looks at the error. The BlobSaver's answer may depend on what
  happened before.
\<close>

record Env =
  FS_Abs :: "string \<Rightarrow> error + string"
  FS_OpenFile :: "string \<Rightarrow> error + handle"
  FS_Lstat :: "string \<Rightarrow> error + FileInfo"
  FS_Stat :: "string \<Rightarrow> error + FileInfo"
  FS_Join :: "string \<Rightarrow> string \<Rightarrow> string"
  FS_Clean :: "string \<Rightarrow> string"
  path_Join :: "string \<Rightarrow> string \<Rightarrow> string"
  pathComponents :: "string \<Rightarrow> string list"
  NewPathTree :: "string list \<Rightarrow> error + PathTree"
  IsRegularFile :: "FileInfo \<Rightarrow> bool"
  NodeFromFileInfo :: "string \<Rightarrow> FileInfo \<Rightarrow> Node \<times> error option"
  Tree_Find :: "Tree option \<Rightarrow> string \<Rightarrow> Node option"
  Tree_Insert :: "Tree \<Rightarrow> Node \<Rightarrow> error + Tree"
  json_Marshal :: "Tree \<Rightarrow> error + 8 word list"
  blobSaver_Save :: "event list \<Rightarrow> BlobType \<Rightarrow> 8 word list \<Rightarrow> error + ID \<times> bool"
  fileSaver_Save :: "string \<Rightarrow> handle option \<Rightarrow> FileInfo \<Rightarrow> FutureFile"
  Repo_LoadTree :: "ID \<Rightarrow> error + Tree"
  LoadSnapshot :: "ID \<Rightarrow> error + Snapshot"
  ID_IsNull :: "ID \<Rightarrow> bool"
  Repo_Flush :: "error option"
  Repo_SaveIndex :: "error option"
  NewSnapshot :: "string list \<Rightarrow> string list \<Rightarrow> string \<Rightarrow> gotime \<Rightarrow> Snapshot option"
  Repo_SaveJSONUnpacked :: "Snapshot \<Rightarrow> error + ID"

text \<open>
  The fields of \<^verbatim>\<open>Archiver\<close> that the caller sets: the hooks \<^verbatim>\<open>Select\<close> and
  \<^verbatim>\<open>Error\<close> (which may be nil) and \<^verbatim>\<open>WithAtime\<close>. \<^verbatim>\<open>Select\<close> is given a nil
  file info when there is none.
\<close>

record Archiver =
  Select :: "string \<Rightarrow> FileInfo option \<Rightarrow> bool"
  Error :: "(string \<Rightarrow> FileInfo option \<Rightarrow> error \<Rightarrow> error option) option"
  WithAtime :: bool

text \<open>
  A run returns, or panics (a method called on a nil \<^verbatim>\<open>fs.File\<close>, a field written
  through a nil pointer), or the recursion through the directories is deeper than the
  fuel given.
\<close>

datatype 'a exec = Ret 'a | Panic | OutOfFuel

section \<open>Archiver.error\<close>

definition Archiver_error ::
  "Archiver \<Rightarrow> string \<Rightarrow> FileInfo option \<Rightarrow> error option \<Rightarrow> error option" where
  "Archiver_error arch item fi err =
     (case Error arch of
        None \<Rightarrow> err
      | Some hook \<Rightarrow> (case err of None \<Rightarrow> err | Some e \<Rightarrow> hook item fi e))"

section \<open>saveTree\<close>

definition null_ID :: ID where
  "null_ID = replicate 32 0"

definition saveTree :: "Env \<Rightarrow> event list \<Rightarrow> Tree \<Rightarrow> event list \<times> ID \<times> ItemStats \<times> error option" where
  "saveTree env tr t =
     (let s = ItemStats_zero in
      case json_Marshal env t of
        Inl err \<Rightarrow> (tr, null_ID, s, Some (Wrapped err ''MarshalJSON''))
      | Inr buf0 \<Rightarrow>
          (let buf = buf0 @ [10];
               res = blobSaver_Save env tr TreeBlob buf;
               tr' = tr @ [EvBlobSaverSave TreeBlob buf]
           in case res of
                Inl err \<Rightarrow> (tr', null_ID, s, Some err)
              | Inr (blobid, known) \<Rightarrow>
                  (let s' = (if \<not> known
                             then s\<lparr>TreeBlobs := TreeBlobs s + 1,
                                    TreeSize := TreeSize s + of_nat (length buf)\<rparr>
                             else s)
                   in (tr', blobid, s', None))))"

section \<open>nodeFromFileInfo, loadSubtree, loadParentTree\<close>

definition nodeFromFileInfo :: "Env \<Rightarrow> Archiver \<Rightarrow> string \<Rightarrow> FileInfo \<Rightarrow> Node \<times> error option" where
  "nodeFromFileInfo env arch filename fi =
     (case NodeFromFileInfo env filename fi of
        (node, err) \<Rightarrow>
          (let node' = (if \<not> WithAtime arch then node\<lparr>AccessTime := ModTime node\<rparr> else node)
           in (node', errors_Wrap err ''NodeFromFileInfo'')))"

definition loadSubtree :: "Env \<Rightarrow> Node option \<Rightarrow> Tree option" where
  "loadSubtree env node =
     (case node of
        None \<Rightarrow> None
      | Some n \<Rightarrow>
          if Type n \<noteq> ''dir'' then None
          else (case Subtree n of
                  None \<Rightarrow> None
                | Some sid \<Rightarrow>
                    (case Repo_LoadTree env sid of
                       Inl err \<Rightarrow> None
                     | Inr tree \<Rightarrow> Some tree)))"

definition loadParentTree :: "Env \<Rightarrow> ID \<Rightarrow> Tree option" where
  "loadParentTree env snapshotID =
     (if ID_IsNull env snapshotID then None
      else (case LoadSnapshot env snapshotID of
              Inl err \<Rightarrow> None
            | Inr sn \<Rightarrow>
                (case sn_Tree sn of
                   None \<Rightarrow> None
                 | Some tid \<Rightarrow>
                     (case Repo_LoadTree env tid of
                        Inl err \<Rightarrow> None
                      | Inr tree \<Rightarrow> Some tree))))"

section \<open>statDir\<close>

text \<open>
  The bits of \<^verbatim>\<open>os.FileMode\<close>, and \<^verbatim>\<open>os.ModeType\<close> as Go 1.12 and later
  define it. \<^verbatim>\<open>statDir\<close> adds \<^verbatim>\<open>os.ModeCharDevice\<close> to the mask itself, as older
  versions of Go need it.
\<close>

definition ModeDir :: uint32 where "ModeDir = push_bit 31 1"
definition ModeSymlink :: uint32 where "ModeSymlink = push_bit 27 1"
definition ModeDevice :: uint32 where "ModeDevice = push_bit 26 1"
definition ModeNamedPipe :: uint32 where "ModeNamedPipe = push_bit 25 1"
definition ModeSocket :: uint32 where "ModeSocket = push_bit 24 1"
definition ModeCharDevice :: uint32 where "ModeCharDevice = push_bit 21 1"
definition ModeIrregular :: uint32 where "ModeIrregular = push_bit 19 1"

definition ModeType :: uint32 where
  "ModeType = ModeDir OR ModeSymlink OR ModeNamedPipe OR ModeSocket OR ModeDevice
                OR ModeCharDevice OR ModeIrregular"

definition IsDir :: "FileInfo \<Rightarrow> bool" where
  "IsDir fi = (fi_Mode fi AND ModeDir \<noteq> 0)"

definition statDir :: "Env \<Rightarrow> event list \<Rightarrow> string \<Rightarrow> event list \<times> FileInfo option \<times> error option" where
  "statDir env tr dir =
     (let tr' = tr @ [EvStat dir] in
      case FS_Stat env dir of
        Inl err \<Rightarrow> (tr', None, Some (Wrapped err ''Lstat''))
      | Inr fi \<Rightarrow>
          (let tpe = fi_Mode fi AND (ModeType OR ModeCharDevice) in
           if tpe \<noteq> ModeDir
           then (tr', Some fi, Some (ErrorString (''path is not a directory: '' @ dir)))
           else (tr', Some fi, None)))"

section \<open>readdirnames, resolveRelativeTargets\<close>

definition readdirnames :: "Env \<Rightarrow> event list \<Rightarrow> string \<Rightarrow> event list \<times> (error + string list)" where
  "readdirnames env tr dir =
     (let tr1 = tr @ [EvOpenFile dir] in
      case FS_OpenFile env dir of
        Inl err \<Rightarrow> (tr1, Inl (Wrapped err ''Open''))
      | Inr f \<Rightarrow>
          (let tr2 = tr1 @ [EvReaddirnames f] in
           case h_Readdirnames f of
             Inl err \<Rightarrow> (tr2 @ [EvClose f], Inl (Wrapped err ''Readdirnames''))
           | Inr entries \<Rightarrow>
               (let tr3 = tr2 @ [EvClose f] in
                case h_Close f of
                  Some err \<Rightarrow> (tr3, Inl err)
                | None \<Rightarrow> (tr3, Inr (sort entries)))))"

fun resolveRelativeTargets_loop ::
  "Env \<Rightarrow> event list \<Rightarrow> string list \<Rightarrow> string list \<Rightarrow> event list \<times> (error + string list)" where
  "resolveRelativeTargets_loop env tr [] result = (tr, Inr result)"
| "resolveRelativeTargets_loop env tr (target0 # targets) result =
     (let target = FS_Clean env target0;
          pc = pathComponents env target
      in if length pc > 0
         then resolveRelativeTargets_loop env tr targets (result @ [target])
         else (case readdirnames env tr target of
                 (tr', Inl err) \<Rightarrow> (tr', Inl err)
               | (tr', Inr entries) \<Rightarrow>
                   resolveRelativeTargets_loop env tr' targets
                     (result @ map (\<lambda>name. FS_Join env target name) entries)))"

definition resolveRelativeTargets ::
  "Env \<Rightarrow> event list \<Rightarrow> string list \<Rightarrow> event list \<times> (error + string list)" where
  "resolveRelativeTargets env tr targets = resolveRelativeTargets_loop env tr targets []"


section \<open>FutureNode\<close>

definition FutureFile_zero :: FutureFile where
  "FutureFile_zero = \<lparr>ff_node = None, ff_stats = ItemStats_zero, ff_err = None\<rparr>"

record FutureNode =
  fn_snPath :: string
  fn_target :: string
  fn_absTarget :: string
  fn_fi :: "FileInfo option"
  fn_node :: "Node option"
  fn_stats :: ItemStats
  fn_err :: "error option"
  fn_isFile :: bool
  fn_file :: FutureFile

definition FutureNode_zero :: FutureNode where
  "FutureNode_zero =
     \<lparr>fn_snPath = [], fn_target = [], fn_absTarget = [], fn_fi = None, fn_node = None,
      fn_stats = ItemStats_zero, fn_err = None, fn_isFile = False, fn_file = FutureFile_zero\<rparr>"

definition wait :: "FutureNode \<Rightarrow> FutureNode" where
  "wait fn =
     (if fn_isFile fn
      then fn\<lparr>fn_node := ff_node (fn_file fn),
              fn_err := ff_err (fn_file fn),
              fn_stats := ff_stats (fn_file fn)\<rparr>
      else fn)"

section \<open>Save\<close>

text \<open>\<^verbatim>\<open>file.Close()\<close>: on a nil \<^verbatim>\<open>fs.File\<close> the call panics.\<close>

definition file_Close :: "event list \<Rightarrow> handle option \<Rightarrow> event list \<times> error option exec" where
  "file_Close tr file =
     (case file of
        None \<Rightarrow> (tr, Panic)
      | Some f \<Rightarrow> (tr @ [EvClose f], Ret (h_Close f)))"

text \<open>
  The test of line 359:
  \<^verbatim>\<open>e, ok := errOpen.(*os.PathError); ok && (e.Err == syscall.ELOOP || e.Err == syscall.ENXIO)\<close>.
\<close>

definition isPathError_ELOOP_ENXIO :: "error \<Rightarrow> bool" where
  "isPathError_ELOOP_ENXIO errOpen =
     (case errOpen of
        PathError opn pth e \<Rightarrow> e = ELOOP \<or> e = ENXIO
      | _ \<Rightarrow> False)"

text \<open>
  Lines 327 to 370 of \<^verbatim>\<open>Save\<close>: either \<^verbatim>\<open>Save\<close> returns there, or it goes on to
  the \<^verbatim>\<open>switch\<close> with \<^verbatim>\<open>fn\<close>, \<^verbatim>\<open>file\<close> (nil when the open failed) and a
  file info.
\<close>

datatype Save_stat =
    SaveReturn "FutureNode \<times> bool \<times> error option"
  | SaveContinue FutureNode "handle option" FileInfo

definition Save_begin ::
  "Env \<Rightarrow> Archiver \<Rightarrow> event list \<Rightarrow> string \<Rightarrow> string \<Rightarrow> event list \<times> Save_stat exec" where
  "Save_begin env arch tr snPath target =
     (let fn0 = FutureNode_zero\<lparr>fn_snPath := snPath, fn_target := target\<rparr> in
      case FS_Abs env target of
        Inl err \<Rightarrow> (tr, Ret (SaveReturn (FutureNode_zero, False, Some err)))
      | Inr abstarget \<Rightarrow>
          (let fn = fn0\<lparr>fn_absTarget := abstarget\<rparr>;
               tr1 = tr @ [EvOpenFile target];
               opened = FS_OpenFile env target;
               file = (case opened of Inl errOpen \<Rightarrow> None | Inr f \<Rightarrow> Some f);
               tr2 = (case opened of Inl errOpen \<Rightarrow> tr1 | Inr f \<Rightarrow> tr1 @ [EvFileStat f]);
               fi0 = (case opened of
                        Inl errOpen \<Rightarrow> None
                      | Inr f \<Rightarrow> (case h_Stat f of Inl errFI \<Rightarrow> None | Inr fi \<Rightarrow> Some fi))
           in if \<not> Select arch abstarget fi0
              then (case file of
                      Some f \<Rightarrow> (tr2 @ [EvClose f], Ret (SaveReturn (FutureNode_zero, True, None)))
                    | None \<Rightarrow> (tr2, Ret (SaveReturn (FutureNode_zero, True, None))))
              else
                (case opened of
                   Inl errOpen \<Rightarrow>
                     if isPathError_ELOOP_ENXIO errOpen
                     then (let tr3 = tr2 @ [EvLstat target] in
                           case FS_Lstat env target of
                             Inl errFI \<Rightarrow>
                               (case file_Close tr3 file of
                                  (tr4, Ret c) \<Rightarrow>
                                    (tr4, Ret (SaveReturn (FutureNode_zero, False, Some (Wrapped errFI ''Stat''))))
                                | (tr4, Panic) \<Rightarrow> (tr4, Panic)
                                | (tr4, OutOfFuel) \<Rightarrow> (tr4, OutOfFuel))
                           | Inr fi \<Rightarrow> (tr3, Ret (SaveContinue fn file fi)))
                     else (tr2, Ret (SaveReturn (FutureNode_zero, False, Some (Wrapped errOpen ''OpenFile''))))
                 | Inr f \<Rightarrow>
                     (case h_Stat f of
                        Inl errFI \<Rightarrow>
                          (case file_Close tr2 file of
                             (tr4, Ret c) \<Rightarrow>
                               (tr4, Ret (SaveReturn (FutureNode_zero, False, Some (Wrapped errFI ''Stat''))))
                           | (tr4, Panic) \<Rightarrow> (tr4, Panic)
                           | (tr4, OutOfFuel) \<Rightarrow> (tr4, OutOfFuel))
                      | Inr fi \<Rightarrow> (tr2, Ret (SaveContinue fn file fi))))))"

text \<open>Lines 425 to 432: the handle, when there still is one, is closed.\<close>

definition Save_end ::
  "event list \<Rightarrow> FutureNode \<Rightarrow> handle option \<Rightarrow> event list \<times> (FutureNode \<times> bool \<times> error option) exec" where
  "Save_end tr fn file =
     (case file of
        None \<Rightarrow> (tr, Ret (fn, False, None))
      | Some f \<Rightarrow>
          (case h_Close f of
             Some err \<Rightarrow> (tr @ [EvClose f], Ret (fn, False, Some (Wrapped err ''Close'')))
           | None \<Rightarrow> (tr @ [EvClose f], Ret (fn, False, None))))"

text \<open>
  The case \<^verbatim>\<open>fs.IsRegularFile(fi)\<close>, lines 373 to 395. After the hand-over to
  the FileSaver \<^verbatim>\<open>file\<close> is set to nil, so that lines 425 to 432 do nothing.
\<close>

definition Save_regular ::
  "Env \<Rightarrow> event list \<Rightarrow> FutureNode \<Rightarrow> string \<Rightarrow> handle option \<Rightarrow> FileInfo \<Rightarrow> Node option
     \<Rightarrow> event list \<times> (FutureNode \<times> bool \<times> error option) exec" where
  "Save_regular env tr fn snPath file fi previous =
     (if previous \<noteq> None \<and> \<not> fileChanged fi previous
      then (let tr1 = tr @ [EvCompleteItem snPath previous previous ItemStats_zero];
                tr2 = tr1 @ [EvCompleteBlob snPath (case previous of Some p \<Rightarrow> Size p | None \<Rightarrow> 0)];
                fn1 = fn\<lparr>fn_node := previous\<rparr>
            in case file_Close tr2 file of
                 (tr3, Ret c) \<Rightarrow> (tr3, Ret (fn1, False, None))
               | (tr3, Panic) \<Rightarrow> (tr3, Panic)
               | (tr3, OutOfFuel) \<Rightarrow> (tr3, OutOfFuel))
      else (let fn1 = fn\<lparr>fn_isFile := True\<rparr>;
                fn2 = fn1\<lparr>fn_file := fileSaver_Save env snPath file fi\<rparr>
            in Save_end (tr @ [EvFileSaverSave snPath file fi]) fn2 None))"

text \<open>The \<^verbatim>\<open>default\<close> case, lines 415 to 423, and the end of \<^verbatim>\<open>Save\<close>.\<close>

definition Save_other ::
  "Env \<Rightarrow> Archiver \<Rightarrow> event list \<Rightarrow> FutureNode \<Rightarrow> string \<Rightarrow> handle option \<Rightarrow> FileInfo
     \<Rightarrow> event list \<times> (FutureNode \<times> bool \<times> error option) exec" where
  "Save_other env arch tr fn target file fi =
     (case nodeFromFileInfo env arch target fi of
        (node, Some err) \<Rightarrow>
          (case file_Close tr file of
             (tr1, Ret c) \<Rightarrow> (tr1, Ret (FutureNode_zero, False, Some err))
           | (tr1, Panic) \<Rightarrow> (tr1, Panic)
           | (tr1, OutOfFuel) \<Rightarrow> (tr1, OutOfFuel))
      | (node, None) \<Rightarrow> Save_end tr (fn\<lparr>fn_node := Some node\<rparr>) file)"

text \<open>
  The second loop of \<^verbatim>\<open>SaveDir\<close>, lines 258 to 282: the futures are awaited in
  order and their nodes inserted into the tree.
\<close>

fun SaveDir_futures :: "Env \<Rightarrow> Archiver \<Rightarrow> Tree \<Rightarrow> FutureNode list \<Rightarrow> error + Tree" where
  "SaveDir_futures env arch tree [] = Inr tree"
| "SaveDir_futures env arch tree (fn0 # futures) =
     (let fn = wait fn0 in
      if fn_err fn \<noteq> None
      then (case Archiver_error arch (fn_target fn) (fn_fi fn) (fn_err fn) of
              None \<Rightarrow> SaveDir_futures env arch tree futures
            | Some err \<Rightarrow> Inl err)
      else (case fn_node fn of
              None \<Rightarrow> SaveDir_futures env arch tree futures
            | Some node \<Rightarrow>
                (case Tree_Insert env tree node of
                   Inl err \<Rightarrow> Inl err
                 | Inr tree' \<Rightarrow> SaveDir_futures env arch tree' futures)))"

text \<open>
  \<^verbatim>\<open>Save\<close> calls \<^verbatim>\<open>SaveDir\<close> on a directory, and \<^verbatim>\<open>SaveDir\<close> calls
  \<^verbatim>\<open>Save\<close> on every entry. \<^verbatim>\<open>SaveDir\<close> and its first loop are written first,
  over the function \<open>save\<close> that stands for \<^verbatim>\<open>arch.Save\<close>; \<^verbatim>\<open>Save\<close> then
  recurses on a bound for the depth of the directories below the target.
\<close>

type_synonym Save_result = "event list \<times> (FutureNode \<times> bool \<times> error option) exec"

type_synonym Save_fun = "event list \<Rightarrow> string \<Rightarrow> string \<Rightarrow> Node option \<Rightarrow> Save_result"

text \<open>The first loop of \<^verbatim>\<open>SaveDir\<close>, lines 234 to 256.\<close>

fun SaveDir_names ::
  "Save_fun \<Rightarrow> Env \<Rightarrow> Archiver \<Rightarrow> event list \<Rightarrow> string \<Rightarrow> FileInfo \<Rightarrow> string \<Rightarrow> Tree option
     \<Rightarrow> string list \<Rightarrow> FutureNode list \<Rightarrow> event list \<times> (error + FutureNode list) exec" where
  "SaveDir_names save env arch tr snPath fi dir previous [] futures = (tr, Ret (Inr futures))"
| "SaveDir_names save env arch tr snPath fi dir previous (name # names) futures =
     (let pathname = FS_Join env dir name;
          oldNode = Tree_Find env previous name;
          snItem = path_Join env snPath name
      in case save tr snItem pathname oldNode of
           (tr1, Panic) \<Rightarrow> (tr1, Panic)
         | (tr1, OutOfFuel) \<Rightarrow> (tr1, OutOfFuel)
         | (tr1, Ret (fn, excluded, err)) \<Rightarrow>
             if err \<noteq> None
             then (case Archiver_error arch pathname (Some fi) err of
                     None \<Rightarrow> SaveDir_names save env arch tr1 snPath fi dir previous names futures
                   | Some err' \<Rightarrow> (tr1, Ret (Inl err')))
             else if excluded
             then SaveDir_names save env arch tr1 snPath fi dir previous names futures
             else SaveDir_names save env arch tr1 snPath fi dir previous names (futures @ [fn]))"

type_synonym SaveDir_result = "event list \<times> (Node option \<times> ItemStats \<times> error option) exec"

definition SaveDir_with ::
  "Save_fun \<Rightarrow> Env \<Rightarrow> Archiver \<Rightarrow> event list \<Rightarrow> string \<Rightarrow> FileInfo \<Rightarrow> string \<Rightarrow> Tree option
     \<Rightarrow> SaveDir_result" where
  "SaveDir_with save env arch tr snPath fi dir previous =
     (let s = ItemStats_zero in
      case nodeFromFileInfo env arch dir fi of
        (treeNode, Some err) \<Rightarrow> (tr, Ret (None, s, Some err))
      | (treeNode, None) \<Rightarrow>
          (case readdirnames env tr dir of
             (tr1, Inl err) \<Rightarrow> (tr1, Ret (None, s, Some err))
           | (tr1, Inr names) \<Rightarrow>
               (case SaveDir_names save env arch tr1 snPath fi dir previous names [] of
                  (tr2, Panic) \<Rightarrow> (tr2, Panic)
                | (tr2, OutOfFuel) \<Rightarrow> (tr2, OutOfFuel)
                | (tr2, Ret (Inl err)) \<Rightarrow> (tr2, Ret (None, s, Some err))
                | (tr2, Ret (Inr futures)) \<Rightarrow>
                    (case SaveDir_futures env arch NewTree futures of
                       Inl err \<Rightarrow> (tr2, Ret (None, s, Some err))
                     | Inr tree \<Rightarrow>
                         (case saveTree env tr2 tree of
                            (tr3, tid, treeStats, Some err) \<Rightarrow>
                              (tr3, Ret (None, ItemStats_zero, Some err))
                          | (tr3, tid, treeStats, None) \<Rightarrow>
                              (tr3, Ret (Some (treeNode\<lparr>Subtree := Some tid\<rparr>),
                                         ItemStats_Add s treeStats, None)))))))"

text \<open>The case \<^verbatim>\<open>fi.IsDir()\<close> of \<^verbatim>\<open>Save\<close>, lines 397 to 409, after \<^verbatim>\<open>SaveDir\<close> has run.\<close>

definition Save_dir ::
  "SaveDir_result \<Rightarrow> FutureNode \<Rightarrow> string \<Rightarrow> handle option \<Rightarrow> Node option \<Rightarrow> Save_result" where
  "Save_dir saved fn snPath file previous =
     (let snItem = snPath @ ''/'' in
      case saved of
        (tr2, Panic) \<Rightarrow> (tr2, Panic)
      | (tr2, OutOfFuel) \<Rightarrow> (tr2, OutOfFuel)
      | (tr2, Ret (node, stats, None)) \<Rightarrow>
          Save_end (tr2 @ [EvCompleteItem snItem previous node stats])
            (fn\<lparr>fn_node := node, fn_stats := stats\<rparr>) file
      | (tr2, Ret (node, stats, Some err)) \<Rightarrow>
          (case file_Close tr2 file of
             (tr3, Ret c) \<Rightarrow> (tr3, Ret (FutureNode_zero, False, Some err))
           | (tr3, Panic) \<Rightarrow> (tr3, Panic)
           | (tr3, OutOfFuel) \<Rightarrow> (tr3, OutOfFuel)))"

text \<open>The \<^verbatim>\<open>switch\<close> of \<^verbatim>\<open>Save\<close>, lines 372 to 423, with what follows it.\<close>

definition Save_switch ::
  "Save_fun \<Rightarrow> Env \<Rightarrow> Archiver \<Rightarrow> event list \<Rightarrow> FutureNode \<Rightarrow> string \<Rightarrow> string \<Rightarrow> handle option
     \<Rightarrow> FileInfo \<Rightarrow> Node option \<Rightarrow> Save_result" where
  "Save_switch save env arch tr1 fn snPath target file fi previous =
     (if IsRegularFile env fi then Save_regular env tr1 fn snPath file fi previous
      else if IsDir fi then
        Save_dir (SaveDir_with save env arch tr1 snPath fi target (loadSubtree env previous))
          fn snPath file previous
      else if fi_Mode fi AND ModeSocket > 0 then (tr1, Ret (FutureNode_zero, True, None))
      else Save_other env arch tr1 fn target file fi)"

primrec Save ::
  "nat \<Rightarrow> Env \<Rightarrow> Archiver \<Rightarrow> event list \<Rightarrow> string \<Rightarrow> string \<Rightarrow> Node option \<Rightarrow> Save_result" where
  "Save 0 env arch tr snPath target previous = (tr, OutOfFuel)"
| "Save (Suc n) env arch tr snPath target previous =
     (case Save_begin env arch tr snPath target of
        (tr1, Panic) \<Rightarrow> (tr1, Panic)
      | (tr1, OutOfFuel) \<Rightarrow> (tr1, OutOfFuel)
      | (tr1, Ret (SaveReturn r)) \<Rightarrow> (tr1, Ret r)
      | (tr1, Ret (SaveContinue fn file fi)) \<Rightarrow>
          Save_switch (Save n env arch) env arch tr1 fn snPath target file fi previous)"

definition SaveDir ::
  "nat \<Rightarrow> Env \<Rightarrow> Archiver \<Rightarrow> event list \<Rightarrow> string \<Rightarrow> FileInfo \<Rightarrow> string \<Rightarrow> Tree option
     \<Rightarrow> SaveDir_result" where
  "SaveDir n env arch tr snPath fi dir previous =
     SaveDir_with (Save n env arch) env arch tr snPath fi dir previous"

section \<open>SaveTree\<close>

type_synonym futureNodes = "(string \<times> FutureNode) list"

type_synonym SaveTree_result = "event list \<times> (error + Tree) exec"

text \<open>
  A leaf of the PathTree, lines 499 to 519. \<^verbatim>\<open>futureNodes\<close> is a Go map; an
  assignment replaces the entry of the key or adds one.
\<close>

definition SaveTree_leaf ::
  "nat \<Rightarrow> Env \<Rightarrow> Archiver \<Rightarrow> event list \<Rightarrow> string \<Rightarrow> string \<Rightarrow> string \<Rightarrow> Tree option
     \<Rightarrow> futureNodes \<Rightarrow> event list \<times> (error + futureNodes) exec" where
  "SaveTree_leaf n env arch tr snPath name pth previous futureNodes =
     (case Save n env arch tr (path_Join env snPath name) pth (Tree_Find env previous name) of
        (tr1, Panic) \<Rightarrow> (tr1, Panic)
      | (tr1, OutOfFuel) \<Rightarrow> (tr1, OutOfFuel)
      | (tr1, Ret (fn, excluded, err)) \<Rightarrow>
          if err \<noteq> None
          then (case Archiver_error arch pth (fn_fi fn) err of
                  None \<Rightarrow> (tr1, Ret (Inr futureNodes))
                | Some err' \<Rightarrow> (tr1, Ret (Inl err')))
          else if \<not> excluded
          then (tr1, Ret (Inr (AList.update name fn futureNodes)))
          else (tr1, Ret (Inr futureNodes)))"

text \<open>
  An intermediate node of the PathTree, lines 521 to 564, once the recursive call of
  \<^verbatim>\<open>SaveTree\<close> on it has run.
\<close>

definition SaveTree_intermediate ::
  "Env \<Rightarrow> Archiver \<Rightarrow> SaveTree_result \<Rightarrow> string \<Rightarrow> string \<Rightarrow> string \<Rightarrow> Node option \<Rightarrow> Tree
     \<Rightarrow> SaveTree_result" where
  "SaveTree_intermediate env arch saved snPath name fileInfoPath oldNode tree =
     (let snItem = path_Join env snPath name @ ''/'' in
      case saved of
        (tr1, Panic) \<Rightarrow> (tr1, Panic)
      | (tr1, OutOfFuel) \<Rightarrow> (tr1, OutOfFuel)
      | (tr1, Ret (Inl err)) \<Rightarrow> (tr1, Ret (Inl err))
      | (tr1, Ret (Inr subtree)) \<Rightarrow>
          (case saveTree env tr1 subtree of
             (tr2, tid, nodeStats, Some err) \<Rightarrow> (tr2, Ret (Inl err))
           | (tr2, tid, nodeStats, None) \<Rightarrow>
               if fileInfoPath = []
               then (tr2, Ret (Inl (ErrorString
                       (''FileInfoPath for '' @ snPath @ ''/'' @ name @ '' is empty''))))
               else
                 (case statDir env tr2 fileInfoPath of
                    (tr3, fi, Some err) \<Rightarrow> (tr3, Ret (Inl err))
                  | (tr3, None, None) \<Rightarrow> (tr3, Panic)
                  | (tr3, Some fi, None) \<Rightarrow>
                      (case nodeFromFileInfo env arch fileInfoPath fi of
                         (node0, Some err) \<Rightarrow> (tr3, Ret (Inl err))
                       | (node0, None) \<Rightarrow>
                           (let node = node0\<lparr>Name := name, Subtree := Some tid\<rparr> in
                            case Tree_Insert env tree node of
                              Inl err \<Rightarrow> (tr3, Ret (Inl err))
                            | Inr tree' \<Rightarrow>
                                (tr3 @ [EvCompleteItem snItem oldNode (Some node) nodeStats],
                                 Ret (Inr tree')))))))"

text \<open>
  The second loop of \<^verbatim>\<open>SaveTree\<close>, lines 568 to 594. Go leaves the order in which
  \<^verbatim>\<open>range\<close> visits a map open; here it is the order of the list.
\<close>

fun SaveTree_futures :: "Env \<Rightarrow> Archiver \<Rightarrow> Tree \<Rightarrow> futureNodes \<Rightarrow> error + Tree" where
  "SaveTree_futures env arch tree [] = Inr tree"
| "SaveTree_futures env arch tree ((name, fn0) # futures) =
     (let fn = wait fn0 in
      if fn_err fn \<noteq> None
      then (case Archiver_error arch (fn_target fn) (fn_fi fn) (fn_err fn) of
              None \<Rightarrow> SaveTree_futures env arch tree futures
            | Some err \<Rightarrow> Inl err)
      else (case fn_node fn of
              None \<Rightarrow> SaveTree_futures env arch tree futures
            | Some node \<Rightarrow>
                (case Tree_Insert env tree (node\<lparr>Name := name\<rparr>) of
                   Inl err \<Rightarrow> Inl err
                 | Inr tree' \<Rightarrow> SaveTree_futures env arch tree' futures)))"

fun SaveTree ::
      "nat \<Rightarrow> Env \<Rightarrow> Archiver \<Rightarrow> event list \<Rightarrow> string \<Rightarrow> PathTree \<Rightarrow> Tree option \<Rightarrow> SaveTree_result"
  and SaveTree_nodes ::
      "nat \<Rightarrow> Env \<Rightarrow> Archiver \<Rightarrow> event list \<Rightarrow> string \<Rightarrow> (string \<times> PathTree) list \<Rightarrow> Tree option
         \<Rightarrow> Tree \<Rightarrow> futureNodes \<Rightarrow> event list \<times> (error + Tree \<times> futureNodes) exec"
where
  "SaveTree n env arch tr snPath (PathTree nodes pth fip) previous =
     (case SaveTree_nodes n env arch tr snPath nodes previous NewTree [] of
        (tr1, Panic) \<Rightarrow> (tr1, Panic)
      | (tr1, OutOfFuel) \<Rightarrow> (tr1, OutOfFuel)
      | (tr1, Ret (Inl err)) \<Rightarrow> (tr1, Ret (Inl err))
      | (tr1, Ret (Inr (tree, futureNodes))) \<Rightarrow>
          (tr1, Ret (SaveTree_futures env arch tree futureNodes)))"
| "SaveTree_nodes n env arch tr snPath [] previous tree futureNodes =
     (tr, Ret (Inr (tree, futureNodes)))"
| "SaveTree_nodes n env arch tr snPath ((name, subatree) # rest) previous tree futureNodes =
     (if pt_Path subatree \<noteq> []
      then (case SaveTree_leaf n env arch tr snPath name (pt_Path subatree) previous futureNodes of
              (tr1, Panic) \<Rightarrow> (tr1, Panic)
            | (tr1, OutOfFuel) \<Rightarrow> (tr1, OutOfFuel)
            | (tr1, Ret (Inl err)) \<Rightarrow> (tr1, Ret (Inl err))
            | (tr1, Ret (Inr futureNodes')) \<Rightarrow>
                SaveTree_nodes n env arch tr1 snPath rest previous tree futureNodes')
      else (let oldNode = Tree_Find env previous name;
                oldSubtree = loadSubtree env oldNode;
                saved = SaveTree n env arch tr (path_Join env snPath name) subatree oldSubtree
            in case SaveTree_intermediate env arch saved snPath name (pt_FileInfoPath subatree)
                      oldNode tree of
                 (tr1, Panic) \<Rightarrow> (tr1, Panic)
               | (tr1, OutOfFuel) \<Rightarrow> (tr1, OutOfFuel)
               | (tr1, Ret (Inl err)) \<Rightarrow> (tr1, Ret (Inl err))
               | (tr1, Ret (Inr tree')) \<Rightarrow>
                   SaveTree_nodes n env arch tr1 snPath rest previous tree' futureNodes))"

section \<open>Snapshot\<close>

text \<open>
  \<^verbatim>\<open>Snapshot\<close> for an archiver whose \<^verbatim>\<open>Repo\<close>, \<^verbatim>\<open>Select\<close> and \<^verbatim>\<open>FS\<close> are
  set, so that \<^verbatim>\<open>Valid\<close> passes once \<^verbatim>\<open>runWorkers\<close> has made the two pools. The
  error of \<^verbatim>\<open>restic.NewSnapshot\<close> is not looked at; with no snapshot the write to
  \<^verbatim>\<open>sn.Excludes\<close> panics. \<open>Snapshot_from\<close> is the body of \<^verbatim>\<open>Snapshot\<close>
  over the value of \<^verbatim>\<open>arch.loadParentTree(ctx, opts.ParentSnapshot)\<close>.
\<close>

definition Snapshot_from ::
  "nat \<Rightarrow> Env \<Rightarrow> Archiver \<Rightarrow> event list \<Rightarrow> string list \<Rightarrow> SnapshotOptions \<Rightarrow> Tree option
     \<Rightarrow> event list \<times> (error + Snapshot \<times> ID) exec" where
  "Snapshot_from n env arch tr targets opts parentTree =
     (case resolveRelativeTargets env tr targets of
        (tr1, Inl err) \<Rightarrow> (tr1, Ret (Inl err))
      | (tr1, Inr cleanTargets) \<Rightarrow>
          (case NewPathTree env cleanTargets of
             Inl err \<Rightarrow> (tr1, Ret (Inl err))
           | Inr atree \<Rightarrow>
               (case SaveTree n env arch tr1 ''/'' atree parentTree of
                  (tr2, Panic) \<Rightarrow> (tr2, Panic)
                | (tr2, OutOfFuel) \<Rightarrow> (tr2, OutOfFuel)
                | (tr2, Ret (Inl err)) \<Rightarrow> (tr2, Ret (Inl err))
                | (tr2, Ret (Inr tree)) \<Rightarrow>
                    (case saveTree env tr2 tree of
                       (tr3, rootTreeID, stats, Some err) \<Rightarrow> (tr3, Ret (Inl err))
                     | (tr3, rootTreeID, stats, None) \<Rightarrow>
                         (let tr4 = tr3 @ [EvCompleteItem ''/'' None None stats] in
                          case Repo_Flush env of
                            Some err \<Rightarrow> (tr4, Ret (Inl err))
                          | None \<Rightarrow>
                              (case Repo_SaveIndex env of
                                 Some err \<Rightarrow> (tr4, Ret (Inl err))
                               | None \<Rightarrow>
                                   (case NewSnapshot env targets (so_Tags opts) (so_Hostname opts)
                                           (so_Time opts) of
                                      None \<Rightarrow> (tr4, Panic)
                                    | Some sn0 \<Rightarrow>
                                        (let sn1 = sn0\<lparr>sn_Excludes := so_Excludes opts\<rparr>;
                                             sn2 = (if \<not> ID_IsNull env (so_ParentSnapshot opts)
                                                    then sn1\<lparr>sn_Parent := Some (so_ParentSnapshot opts)\<rparr>
                                                    else sn1);
                                             sn = sn2\<lparr>sn_Tree := Some rootTreeID\<rparr>
                                         in case Repo_SaveJSONUnpacked env sn of
                                              Inl err \<Rightarrow> (tr4, Ret (Inl err))
                                            | Inr sid \<Rightarrow> (tr4, Ret (Inr (sn, sid)))))))))))"

definition Snapshot ::
  "nat \<Rightarrow> Env \<Rightarrow> Archiver \<Rightarrow> event list \<Rightarrow> string list \<Rightarrow> SnapshotOptions
     \<Rightarrow> event list \<times> (error + Snapshot \<times> ID) exec" where
  "Snapshot n env arch tr targets opts =
     Snapshot_from n env arch tr targets opts (loadParentTree env (so_ParentSnapshot opts))"

section \<open>What the spec says of resolveRelativeTargets and of intermediate nodes\<close>

text \<open>
  The spec's words on one target: it is cleaned; with no path component left it
  stands for the entries of that directory, each joined to it, in sorted order;
  otherwise for itself.
\<close>

definition spec_resolved_target :: "Env \<Rightarrow> string \<Rightarrow> string list" where
  "spec_resolved_target env target0 =
     (let target = FS_Clean env target0 in
      if pathComponents env target = []
      then (case FS_OpenFile env target of
              Inl err \<Rightarrow> []
            | Inr f \<Rightarrow>
                (case h_Readdirnames f of
                   Inl err \<Rightarrow> []
                 | Inr entries \<Rightarrow> map (FS_Join env target) (sort entries)))
      else [target])"

text \<open>The directory of a target with no path component can be listed.\<close>

definition listable :: "Env \<Rightarrow> string \<Rightarrow> bool" where
  "listable env dir =
     (case FS_OpenFile env dir of
        Inl err \<Rightarrow> False
      | Inr f \<Rightarrow> (case h_Readdirnames f of Inl err \<Rightarrow> False | Inr entries \<Rightarrow> h_Close f = None))"

text \<open>A stat of the path, symbolic links resolved, reports a directory.\<close>

definition stat_reports_directory :: "Env \<Rightarrow> string \<Rightarrow> bool" where
  "stat_reports_directory env p =
     (case FS_Stat env p of
        Inl err \<Rightarrow> False
      | Inr fi \<Rightarrow> fi_Mode fi AND (ModeType OR ModeCharDevice) = ModeDir)"

text \<open>
  Every intermediate node below a PathTree has a \<^verbatim>\<open>FileInfoPath\<close> that is not
  empty and that a stat reports as a directory.
\<close>

fun intermediates_ok :: "Env \<Rightarrow> PathTree \<Rightarrow> bool" where
  "intermediates_ok env (PathTree nodes pth fip) =
     (\<forall>p \<in> set nodes.
        pt_Path (snd p) = [] \<longrightarrow>
          pt_FileInfoPath (snd p) \<noteq> []
          \<and> stat_reports_directory env (pt_FileInfoPath (snd p))
          \<and> intermediates_ok env (snd p))"

section \<open>A small filesystem\<close>

text \<open>
  A directory \<^verbatim>\<open>.\<close> with the entries \<^verbatim>\<open>b\<close>, \<^verbatim>\<open>a\<close>, \<^verbatim>\<open>link\<close> and
  \<^verbatim>\<open>gone\<close>: \<^verbatim>\<open>a\<close> is a regular file, \<^verbatim>\<open>b\<close> a file that cannot be opened
  (\<^verbatim>\<open>EACCES\<close>), \<^verbatim>\<open>link\<close> a symbolic link (the open with \<^verbatim>\<open>O_NOFOLLOW\<close> fails
  with \<^verbatim>\<open>ELOOP\<close>), \<^verbatim>\<open>gone\<close> a symbolic link that is removed between the open
  and the lstat; and a directory \<^verbatim>\<open>home\<close>.
\<close>

definition t0 :: gotime where
  "t0 = \<lparr>instant = 1500000000000000000, loc = ''UTC''\<rparr>"

definition fi_a :: FileInfo where
  "fi_a = \<lparr>fi_Name = ''a'', fi_Size = 2, fi_Mode = 420, fi_ModTime = t0,
           fi_ExtendedStat = \<lparr>ext_Inode = 7, ext_Size = 2\<rparr>\<rparr>"

definition fi_link :: FileInfo where
  "fi_link = \<lparr>fi_Name = ''link'', fi_Size = 1, fi_Mode = ModeSymlink OR 511, fi_ModTime = t0,
              fi_ExtendedStat = \<lparr>ext_Inode = 8, ext_Size = 1\<rparr>\<rparr>"

definition fi_dir :: FileInfo where
  "fi_dir = \<lparr>fi_Name = ''home'', fi_Size = 4096, fi_Mode = ModeDir OR 493, fi_ModTime = t0,
             fi_ExtendedStat = \<lparr>ext_Inode = 2, ext_Size = 4096\<rparr>\<rparr>"

definition node_of :: "FileInfo \<Rightarrow> Node" where
  "node_of fi =
     \<lparr>Name = fi_Name fi,
      Type = (if fi_Mode fi AND ModeDir \<noteq> 0 then ''dir''
              else if fi_Mode fi AND ModeSymlink \<noteq> 0 then ''symlink'' else ''file''),
      Mode = fi_Mode fi, ModTime = fi_ModTime fi,
      AccessTime = \<lparr>instant = instant (fi_ModTime fi) + 5, loc = loc (fi_ModTime fi)\<rparr>,
      ChangeTime = fi_ModTime fi, UID = 1000, GID = 1000, User = ''u'', Group = ''g'',
      Inode = ext_Inode (fi_ExtendedStat fi), DeviceID = 1,
      Size = uint64_of_int64 (fi_Size fi), LinkTarget = [], Content = [], Subtree = None\<rparr>"

definition node_a :: Node where
  "node_a = (node_of fi_a)\<lparr>Content := [[1, 2, 3]]\<rparr>"

definition h_a :: handle where
  "h_a = \<lparr>h_path = ''a'', h_Stat = Inr fi_a,
          h_Readdirnames = Inl (PathError ''readdirent'' ''a'' ENOTDIR), h_Close = None\<rparr>"

definition h_dot :: handle where
  "h_dot = \<lparr>h_path = ''.'', h_Stat = Inr (fi_dir\<lparr>fi_Name := ''.''\<rparr>),
            h_Readdirnames = Inr [''b'', ''a''], h_Close = None\<rparr>"

definition env0 :: Env where
  "env0 =
     \<lparr>FS_Abs = (\<lambda>p. Inr (''/cwd/'' @ p)),
      FS_OpenFile = (\<lambda>p. if p = ''a'' then Inr h_a
                          else if p = ''.'' then Inr h_dot
                          else if p = ''link'' \<or> p = ''gone'' then Inl (PathError ''open'' p ELOOP)
                          else Inl (PathError ''open'' p EACCES)),
      FS_Lstat = (\<lambda>p. if p = ''a'' then Inr fi_a
                       else if p = ''link'' then Inr fi_link
                       else Inl (PathError ''lstat'' p ENOENT)),
      FS_Stat = (\<lambda>p. if p = ''a'' then Inr fi_a
                      else if p = ''home'' then Inr fi_dir
                      else Inl (PathError ''stat'' p ENOENT)),
      FS_Join = (\<lambda>d name. if d = ''.'' then name else d @ ''/'' @ name),
      FS_Clean = (\<lambda>p. p),
      path_Join = (\<lambda>d name. if d = ''/'' then d @ name else d @ ''/'' @ name),
      pathComponents = (\<lambda>p. if p = ''.'' then [] else [p]),
      NewPathTree = (\<lambda>targets. Inr (PathTree (map (\<lambda>t. (t, PathTree [] t [])) targets) [] [])),
      IsRegularFile = (\<lambda>fi. fi_Mode fi AND (ModeType OR ModeCharDevice) = 0),
      NodeFromFileInfo = (\<lambda>p fi. (node_of fi, None)),
      Tree_Find = (\<lambda>t name. case t of None \<Rightarrow> None
                                     | Some t' \<Rightarrow> find (\<lambda>n. Name n = name) (Nodes t')),
      Tree_Insert = (\<lambda>t n. if Name n \<in> set (map Name (Nodes t))
                            then Inl (ErrorString ''node already present'')
                            else Inr \<lparr>Nodes = insort_key Name n (Nodes t)\<rparr>),
      json_Marshal = (\<lambda>t. Inr (map (\<lambda>n. of_nat (length (Name n))) (Nodes t))),
      blobSaver_Save = (\<lambda>tr tpe buf. Inr (buf, EvBlobSaverSave tpe buf \<in> set tr)),
      fileSaver_Save = (\<lambda>snPath file fi.
                          \<lparr>ff_node = Some (node_of fi), ff_stats = ItemStats_zero, ff_err = None\<rparr>),
      Repo_LoadTree = (\<lambda>tid. Inl (ErrorString ''tree not found'')),
      LoadSnapshot = (\<lambda>sid. Inl (ErrorString ''snapshot not found'')),
      ID_IsNull = (\<lambda>sid. sid = []),
      Repo_Flush = None,
      Repo_SaveIndex = None,
      NewSnapshot = (\<lambda>targets tags host tm.
                       Some \<lparr>sn_Time = tm, sn_Parent = None, sn_Tree = None, sn_Paths = targets,
                             sn_Hostname = host, sn_Excludes = [], sn_Tags = tags\<rparr>),
      Repo_SaveJSONUnpacked = (\<lambda>sn. Inr [9])\<rparr>"

text \<open>
  The PathTree of the targets \<^verbatim>\<open>home/a\<close> and \<^verbatim>\<open>link\<close>: an intermediate node
  \<^verbatim>\<open>home\<close> above the leaf \<^verbatim>\<open>a\<close>, and the leaf \<^verbatim>\<open>link\<close>.
\<close>

definition atree0 :: PathTree where
  "atree0 = PathTree [(''home'', PathTree [(''a'', PathTree [] ''a'' [])] [] ''home''),
                      (''link'', PathTree [] ''link'' [])] [] []"

text \<open>
  Archivers: the one \<^verbatim>\<open>New\<close> builds (everything selected, no error hook), one
  that selects nothing, one whose hook swallows every error, and one whose hook
  replaces every error by another.
\<close>

definition arch0 :: Archiver where
  "arch0 = \<lparr>Select = (\<lambda>item fi. True), Error = None, WithAtime = False\<rparr>"




definition opts0 :: SnapshotOptions where
  "opts0 = \<lparr>so_Tags = [], so_Hostname = ''host'', so_Excludes = [], so_Time = t0,
            so_ParentSnapshot = [1]\<rparr>"

section \<open>Properties\<close>

text \<open>
  C1. The change detector reports a file unchanged exactly when the previous node
  exists, its type is \<^verbatim>\<open>file\<close>, the modification times denote the same instant
  (whole nanoseconds), the stat's logical size and its extended-stat size both equal
  the node's size, and the extended-stat inode equals the node's inode. In every
  other case it reports changed.
\<close>

theorem fileChanged_unchanged_iff:
  "(\<not> fileChanged fi node) =
     (\<exists>n. node = Some n \<and> Type n = ''file''
        \<and> instant (fi_ModTime fi) = instant (ModTime n)
        \<and> uint64_of_int64 (fi_Size fi) = Size n
        \<and> uint64_of_int64 (ext_Size (fi_ExtendedStat fi)) = Size n
        \<and> ext_Inode (fi_ExtendedStat fi) = Inode n)"
  by (cases node) (auto simp: fileChanged_def time_Equal_def Let_def)

theorem fileChanged_unchanged_iff_witness:
  "\<not> fileChanged fi_a (Some node_a) \<and> fileChanged fi_a (Some (node_a\<lparr>Size := 3\<rparr>))
     \<and> fileChanged fi_a None"
proof -
  have a: "\<exists>n. Some node_a = Some n \<and> Type n = ''file''
        \<and> instant (fi_ModTime fi_a) = instant (ModTime n)
        \<and> uint64_of_int64 (fi_Size fi_a) = Size n
        \<and> uint64_of_int64 (ext_Size (fi_ExtendedStat fi_a)) = Size n
        \<and> ext_Inode (fi_ExtendedStat fi_a) = Inode n"
    by (simp add: node_a_def node_of_def fi_a_def t0_def uint64_of_int64_def ModeDir_def ModeSymlink_def)
  have b: "\<not> (\<exists>n. Some (node_a\<lparr>Size := 3\<rparr>) = Some n \<and> Type n = ''file''
        \<and> instant (fi_ModTime fi_a) = instant (ModTime n)
        \<and> uint64_of_int64 (fi_Size fi_a) = Size n
        \<and> uint64_of_int64 (ext_Size (fi_ExtendedStat fi_a)) = Size n
        \<and> ext_Inode (fi_ExtendedStat fi_a) = Inode n)"
    by (simp add: node_a_def node_of_def fi_a_def t0_def uint64_of_int64_def)
  have c: "\<not> (\<exists>n. (None :: Node option) = Some n \<and> Type n = ''file''
        \<and> instant (fi_ModTime fi_a) = instant (ModTime n)
        \<and> uint64_of_int64 (fi_Size fi_a) = Size n
        \<and> uint64_of_int64 (ext_Size (fi_ExtendedStat fi_a)) = Size n
        \<and> ext_Inode (fi_ExtendedStat fi_a) = Inode n)"
    by simp
  from a b c show ?thesis
    unfolding fileChanged_unchanged_iff [symmetric] by simp
qed

text \<open>
  C10. Every node that nodeFromFileInfo builds has its access time overwritten with
  its modification time when WithAtime is false; the access time that
  restic.NodeFromFileInfo took from the filesystem is kept only when WithAtime is true.
\<close>

theorem nodeFromFileInfo_access_time:
  assumes "NodeFromFileInfo env filename fi = (node, err)"
  shows "nodeFromFileInfo env arch filename fi =
           ((if WithAtime arch then node else node\<lparr>AccessTime := ModTime node\<rparr>),
            errors_Wrap err ''NodeFromFileInfo'')
         \<and> (\<not> WithAtime arch \<longrightarrow>
              AccessTime (fst (nodeFromFileInfo env arch filename fi)) = ModTime node)
         \<and> (WithAtime arch \<longrightarrow>
              AccessTime (fst (nodeFromFileInfo env arch filename fi)) = AccessTime node)"
  using assms by (simp add: nodeFromFileInfo_def)

theorem nodeFromFileInfo_access_time_witness:
  "NodeFromFileInfo env0 ''a'' fi_a = (node_of fi_a, None)
   \<and> AccessTime (node_of fi_a) \<noteq> ModTime (node_of fi_a)
   \<and> AccessTime (fst (nodeFromFileInfo env0 arch0 ''a'' fi_a)) = ModTime (node_of fi_a)
   \<and> AccessTime (fst (nodeFromFileInfo env0 (arch0\<lparr>WithAtime := True\<rparr>) ''a'' fi_a))
        = AccessTime (node_of fi_a)"
proof -
  have h: "NodeFromFileInfo env0 ''a'' fi_a = (node_of fi_a, None)"
    by (simp add: env0_def)
  have n: "AccessTime (node_of fi_a) \<noteq> ModTime (node_of fi_a)"
    by (simp add: node_of_def fi_a_def t0_def)
  have w0: "\<not> WithAtime arch0" by (simp add: arch0_def)
  have w1: "WithAtime (arch0\<lparr>WithAtime := True\<rparr>)" by simp
  from nodeFromFileInfo_access_time [OF h, of arch0] nodeFromFileInfo_access_time [OF h, of "arch0\<lparr>WithAtime := True\<rparr>"] h n w0 w1
  show ?thesis by blast
qed

text \<open>
  C4. For a tree that json.Marshal encodes, saveTree hands the BlobSaver exactly the
  encoding followed by one newline byte, as one tree blob. When the BlobSaver stores it,
  the returned ItemStats counts one tree blob of that length if the blob was not known,
  and nothing if it was known.
\<close>

theorem saveTree_stores_json_newline:
  assumes "json_Marshal env t = Inr buf"
  shows "fst (saveTree env tr t) = tr @ [EvBlobSaverSave TreeBlob (buf @ [10])]
       \<and> (blobSaver_Save env tr TreeBlob (buf @ [10]) = Inr (blobid, known) \<longrightarrow>
              snd (saveTree env tr t) =
                (blobid,
                 (if known then ItemStats_zero
                  else \<lparr>DataBlobs = 0, DataSize = 0, TreeBlobs = 1,
                        TreeSize = of_nat (length buf + 1)\<rparr>),
                 None)
              \<and> ((TreeBlobs (fst (snd (snd (saveTree env tr t)))) = 1) = (\<not> known)))"
  using assms
  by (auto simp: saveTree_def Let_def ItemStats_zero_def split: sum.splits)

theorem saveTree_stores_json_newline_witness:
  "json_Marshal env0 \<lparr>Nodes = [node_a]\<rparr> = Inr [1]
   \<and> saveTree env0 [] \<lparr>Nodes = [node_a]\<rparr>
       = ([EvBlobSaverSave TreeBlob [1, 10]], [1, 10],
          \<lparr>DataBlobs = 0, DataSize = 0, TreeBlobs = 1, TreeSize = 2\<rparr>, None)
   \<and> saveTree env0 [EvBlobSaverSave TreeBlob [1, 10]] \<lparr>Nodes = [node_a]\<rparr>
       = ([EvBlobSaverSave TreeBlob [1, 10], EvBlobSaverSave TreeBlob [1, 10]], [1, 10],
          ItemStats_zero, None)"
proof -
  have m: "json_Marshal env0 \<lparr>Nodes = [node_a]\<rparr> = Inr [1]"
    by (simp add: env0_def node_a_def node_of_def fi_a_def)
  have s1: "blobSaver_Save env0 [] TreeBlob ([1] @ [10]) = Inr ([1, 10], False)"
    by (simp add: env0_def)
  have s2: "blobSaver_Save env0 [EvBlobSaverSave TreeBlob [1, 10]] TreeBlob ([1] @ [10]) = Inr ([1, 10], True)"
    by (simp add: env0_def)
  from saveTree_stores_json_newline [OF m, of "[]" "[1, 10]" False] s1
  have a: "saveTree env0 [] \<lparr>Nodes = [node_a]\<rparr>
       = ([EvBlobSaverSave TreeBlob [1, 10]], [1, 10],
          \<lparr>DataBlobs = 0, DataSize = 0, TreeBlobs = 1, TreeSize = 2\<rparr>, None)"
    by (simp add: prod_eq_iff)
  from saveTree_stores_json_newline [OF m, of "[EvBlobSaverSave TreeBlob [1, 10]]" "[1, 10]" True] s2
  have b: "saveTree env0 [EvBlobSaverSave TreeBlob [1, 10]] \<lparr>Nodes = [node_a]\<rparr>
       = ([EvBlobSaverSave TreeBlob [1, 10], EvBlobSaverSave TreeBlob [1, 10]], [1, 10],
          ItemStats_zero, None)"
    by (simp add: prod_eq_iff)
  from m a b show ?thesis by simp
qed

text \<open>
  C7. A failure to load the parent snapshot, its tree or a previous subtree is not an
  error of the snapshot: loadParentTree and loadSubtree then yield no tree, and
  Snapshot runs as it does without a parent tree.
\<close>

theorem load_failure_means_no_previous_tree:
  "(LoadSnapshot env sid = Inl e \<longrightarrow> loadParentTree env sid = None)
   \<and> (LoadSnapshot env sid = Inr sn \<and> sn_Tree sn = Some tid \<and> Repo_LoadTree env tid = Inl e
        \<longrightarrow> loadParentTree env sid = None)
   \<and> (Subtree node = Some tid \<and> Repo_LoadTree env tid = Inl e
        \<longrightarrow> loadSubtree env (Some node) = None)
   \<and> (LoadSnapshot env (so_ParentSnapshot opts) = Inl e
        \<or> (LoadSnapshot env (so_ParentSnapshot opts) = Inr sn \<and> sn_Tree sn = Some tid
             \<and> Repo_LoadTree env tid = Inl e)
        \<longrightarrow> Snapshot n env arch tr targets opts = Snapshot_from n env arch tr targets opts None)"
  by (auto simp: loadParentTree_def loadSubtree_def Snapshot_def)

lemma Snapshot_parent_not_found:
  "(case snd (Snapshot 1 env0 arch0 [] [''a''] opts0) of
      Ret (Inr (sn, sid)) \<Rightarrow> sid = [9] \<and> sn_Parent sn = Some [1]
    | _ \<Rightarrow> False)"
  by code_simp

theorem load_failure_means_no_previous_tree_witness:
  "LoadSnapshot env0 (so_ParentSnapshot opts0) = Inl (ErrorString ''snapshot not found'')
   \<and> loadParentTree env0 (so_ParentSnapshot opts0) = None
   \<and> Repo_LoadTree env0 [5] = Inl (ErrorString ''tree not found'')
   \<and> loadSubtree env0 (Some ((node_of fi_dir)\<lparr>Subtree := Some [5]\<rparr>)) = None
   \<and> Snapshot 1 env0 arch0 [] [''a''] opts0 = Snapshot_from 1 env0 arch0 [] [''a''] opts0 None
   \<and> (\<exists>sn. snd (Snapshot_from 1 env0 arch0 [] [''a''] opts0 None) = Ret (Inr (sn, [9])))"
proof -
  have l: "LoadSnapshot env0 (so_ParentSnapshot opts0) = Inl (ErrorString ''snapshot not found'')"
    by (simp add: env0_def)
  have t: "Repo_LoadTree env0 [5] = Inl (ErrorString ''tree not found'')"
    by (simp add: env0_def)
  have s: "Subtree ((node_of fi_dir)\<lparr>Subtree := Some [5]\<rparr>) = Some [5]"
    by simp
  from load_failure_means_no_previous_tree
         [of env0 "so_ParentSnapshot opts0" "ErrorString ''snapshot not found''" _ "[5]"
             "(node_of fi_dir)\<lparr>Subtree := Some [5]\<rparr>" opts0 1 arch0 "[]" "[''a'']"]
       load_failure_means_no_previous_tree
         [of env0 "so_ParentSnapshot opts0" "ErrorString ''tree not found''" _ "[5]"
             "(node_of fi_dir)\<lparr>Subtree := Some [5]\<rparr>" opts0 1 arch0 "[]" "[''a'']"]
       l t s
  have a: "loadParentTree env0 (so_ParentSnapshot opts0) = None"
    and b: "loadSubtree env0 (Some ((node_of fi_dir)\<lparr>Subtree := Some [5]\<rparr>)) = None"
    and c: "Snapshot 1 env0 arch0 [] [''a''] opts0 = Snapshot_from 1 env0 arch0 [] [''a''] opts0 None"
    by simp_all
  from Snapshot_parent_not_found
  obtain sn where "snd (Snapshot 1 env0 arch0 [] [''a''] opts0) = Ret (Inr (sn, [9]))"
    by (auto split: exec.splits sum.splits)
  with c have d: "\<exists>sn. snd (Snapshot_from 1 env0 arch0 [] [''a''] opts0 None) = Ret (Inr (sn, [9]))"
    by auto
  from l a t b c d show ?thesis by simp
qed

lemma readdirnames_listable:
  "listable env dir \<Longrightarrow>
     \<exists>f entries. FS_OpenFile env dir = Inr f \<and> h_Readdirnames f = Inr entries
       \<and> readdirnames env tr dir
            = (tr @ [EvOpenFile dir, EvReaddirnames f, EvClose f], Inr (sort entries))"
  by (auto simp: listable_def readdirnames_def Let_def split: sum.splits)

lemma resolveRelativeTargets_loop_spec:
  "\<forall>t\<in>set targets. pathComponents env (FS_Clean env t) = [] \<longrightarrow> listable env (FS_Clean env t) \<Longrightarrow>
     snd (resolveRelativeTargets_loop env tr targets result)
       = Inr (result @ concat (map (spec_resolved_target env) targets))"
proof (induction targets arbitrary: tr result)
  case Nil
  then show ?case by simp
next
  case (Cons t targets)
  show ?case
  proof (cases "pathComponents env (FS_Clean env t) = []")
    case False
    with Cons show ?thesis
      by (simp add: spec_resolved_target_def Let_def)
  next
    case True
    with Cons.prems have "listable env (FS_Clean env t)" by simp
    from readdirnames_listable [OF this, of tr]
    obtain f entries where
      o: "FS_OpenFile env (FS_Clean env t) = Inr f" and
      r: "h_Readdirnames f = Inr entries" and
      rd: "readdirnames env tr (FS_Clean env t)
             = (tr @ [EvOpenFile (FS_Clean env t), EvReaddirnames f, EvClose f], Inr (sort entries))"
      by blast
    from Cons.prems have rest:
      "\<forall>t\<in>set targets. pathComponents env (FS_Clean env t) = [] \<longrightarrow> listable env (FS_Clean env t)"
      by simp
    show ?thesis
      using True o r rd Cons.IH [OF rest]
      by (simp add: spec_resolved_target_def Let_def)
  qed
qed

text \<open>
  C5. resolveRelativeTargets cleans every target. A target whose cleaned form has no
  path component is replaced by the entries of that directory, each joined to the
  cleaned target, in sorted order; every other target is emitted cleaned; the order of
  the targets is kept. (The directories to expand can be listed; otherwise the error
  of the listing is returned.)
\<close>

theorem resolveRelativeTargets_expands:
  assumes "\<forall>t\<in>set targets. pathComponents env (FS_Clean env t) = [] \<longrightarrow> listable env (FS_Clean env t)"
  shows "snd (resolveRelativeTargets env tr targets)
           = Inr (concat (map (spec_resolved_target env) targets))"
  using resolveRelativeTargets_loop_spec [OF assms, of tr "[]"]
  by (simp add: resolveRelativeTargets_def)

theorem resolveRelativeTargets_expands_witness:
  "pathComponents env0 (FS_Clean env0 ''.'') = [] \<and> listable env0 (FS_Clean env0 ''.'')
   \<and> pathComponents env0 (FS_Clean env0 ''x'') = [''x'']
   \<and> h_Readdirnames h_dot = Inr [''b'', ''a'']
   \<and> snd (resolveRelativeTargets env0 [] [''.'', ''x'']) = Inr [''a'', ''b'', ''x'']"
proof -
  have p: "pathComponents env0 (FS_Clean env0 ''.'') = []"
    "pathComponents env0 (FS_Clean env0 ''x'') = [''x'']"
    by (simp_all add: env0_def)
  have l: "listable env0 (FS_Clean env0 ''.'')"
    by (simp add: env0_def listable_def h_dot_def)
  have r: "h_Readdirnames h_dot = Inr [''b'', ''a'']"
    by (simp add: h_dot_def)
  have h: "\<forall>t\<in>set [''.'', ''x'']. pathComponents env0 (FS_Clean env0 t) = [] \<longrightarrow> listable env0 (FS_Clean env0 t)"
    using p l by simp
  have s: "concat (map (spec_resolved_target env0) [''.'', ''x'']) = [''a'', ''b'', ''x'']"
    by (simp add: spec_resolved_target_def env0_def h_dot_def)
  from resolveRelativeTargets_expands [OF h, of "[]"] s p l r show ?thesis by simp
qed

lemma Save_begin_opened:
  assumes "FS_Abs env target = Inr abstarget" "FS_OpenFile env target = Inr f"
    "h_Stat f = Inr fi" "Select arch abstarget (Some fi)"
  shows "Save_begin env arch tr snPath target =
           (tr @ [EvOpenFile target, EvFileStat f],
            Ret (SaveContinue
                   (FutureNode_zero\<lparr>fn_snPath := snPath, fn_target := target,
                                     fn_absTarget := abstarget\<rparr>) (Some f) fi))"
  using assms by (simp add: Save_begin_def Let_def)

lemma Save_begin_open_failed:
  assumes "FS_Abs env target = Inr abstarget" "FS_OpenFile env target = Inl errOpen"
  shows "Save_begin env arch tr snPath target =
           (if \<not> Select arch abstarget None
            then (tr @ [EvOpenFile target], Ret (SaveReturn (FutureNode_zero, True, None)))
            else if \<not> isPathError_ELOOP_ENXIO errOpen
            then (tr @ [EvOpenFile target],
                  Ret (SaveReturn (FutureNode_zero, False, Some (Wrapped errOpen ''OpenFile''))))
            else (case FS_Lstat env target of
                    Inl errFI \<Rightarrow> (tr @ [EvOpenFile target, EvLstat target], Panic)
                  | Inr fi \<Rightarrow>
                      (tr @ [EvOpenFile target, EvLstat target],
                       Ret (SaveContinue
                              (FutureNode_zero\<lparr>fn_snPath := snPath, fn_target := target,
                                                fn_absTarget := abstarget\<rparr>) None fi))))"
  using assms by (simp add: Save_begin_def Let_def file_Close_def split: sum.splits)

text \<open>
  C2. A regular file that was opened and selected, with a previous node against which
  fileChanged reports no change: Save returns the previous node itself as the node of
  the file, calls CompleteItem with zero ItemStats and CompleteBlob with the previous
  size, closes the file, and hands nothing to the FileSaver.
\<close>

theorem Save_unchanged_file_reuses_previous:
  assumes "FS_Abs env target = Inr abstarget"
    and "FS_OpenFile env target = Inr f"
    and "h_Stat f = Inr fi"
    and "Select arch abstarget (Some fi)"
    and "IsRegularFile env fi"
    and "\<not> fileChanged fi (Some prev)"
  shows "Save (Suc n) env arch tr snPath target (Some prev) =
           (tr @ [EvOpenFile target, EvFileStat f,
                  EvCompleteItem snPath (Some prev) (Some prev) ItemStats_zero,
                  EvCompleteBlob snPath (Size prev),
                  EvClose f],
            Ret (FutureNode_zero\<lparr>fn_snPath := snPath, fn_target := target,
                                  fn_absTarget := abstarget, fn_node := Some prev\<rparr>,
                 False, None))"
  using assms(5,6)
  by (simp add: Save_begin_opened [OF assms(1-4)] Save_switch_def Save_regular_def
        file_Close_def Let_def)

theorem Save_unchanged_file_reuses_previous_witness:
  "FS_Abs env0 ''a'' = Inr ''/cwd/a'' \<and> FS_OpenFile env0 ''a'' = Inr h_a \<and> h_Stat h_a = Inr fi_a
   \<and> Select arch0 ''/cwd/a'' (Some fi_a) \<and> IsRegularFile env0 fi_a
   \<and> \<not> fileChanged fi_a (Some node_a)
   \<and> Save (Suc 0) env0 arch0 [] ''/a'' ''a'' (Some node_a) =
       ([EvOpenFile ''a'', EvFileStat h_a,
         EvCompleteItem ''/a'' (Some node_a) (Some node_a) ItemStats_zero,
         EvCompleteBlob ''/a'' 2, EvClose h_a],
        Ret (FutureNode_zero\<lparr>fn_snPath := ''/a'', fn_target := ''a'',
                              fn_absTarget := ''/cwd/a'', fn_node := Some node_a\<rparr>,
             False, None))"
proof -
  have a: "FS_Abs env0 ''a'' = Inr ''/cwd/a''" by (simp add: env0_def)
  have b: "FS_OpenFile env0 ''a'' = Inr h_a" by (simp add: env0_def)
  have c: "h_Stat h_a = Inr fi_a" by (simp add: h_a_def)
  have d: "Select arch0 ''/cwd/a'' (Some fi_a)" by (simp add: arch0_def)
  have e: "IsRegularFile env0 fi_a"
    by (simp add: env0_def fi_a_def ModeType_def ModeDir_def ModeSymlink_def ModeNamedPipe_def
          ModeSocket_def ModeDevice_def ModeCharDevice_def ModeIrregular_def)
  have f: "\<not> fileChanged fi_a (Some node_a)"
    by (simp add: fileChanged_def time_Equal_def node_a_def node_of_def fi_a_def t0_def
          uint64_of_int64_def ModeDir_def ModeSymlink_def)
  have g: "Size node_a = 2"
    by (simp add: node_a_def node_of_def fi_a_def uint64_of_int64_def)
  from Save_unchanged_file_reuses_previous [OF a b c d e f, of 0 "[]" "''/a''"] a b c d e f g
  show ?thesis by simp
qed

text \<open>
  C9. When the open fails with ELOOP or ENXIO, the target is selected and the lstat
  that Save falls back to fails as well, Save calls Close on the file although there
  is none (line 368), and panics; it does not return the stat error.
\<close>

theorem Save_failed_lstat_closes_nil_file:
  assumes "FS_Abs env target = Inr abstarget"
    and "FS_OpenFile env target = Inl errOpen"
    and "isPathError_ELOOP_ENXIO errOpen"
    and "Select arch abstarget None"
    and "FS_Lstat env target = Inl errFI"
  shows "Save (Suc n) env arch tr snPath target previous =
           (tr @ [EvOpenFile target, EvLstat target], Panic)"
  using assms(3-5)
  by (simp add: Save_begin_open_failed [OF assms(1,2)])

theorem Save_failed_lstat_closes_nil_file_witness:
  "FS_Abs env0 ''gone'' = Inr ''/cwd/gone''
   \<and> FS_OpenFile env0 ''gone'' = Inl (PathError ''open'' ''gone'' ELOOP)
   \<and> isPathError_ELOOP_ENXIO (PathError ''open'' ''gone'' ELOOP)
   \<and> Select arch0 ''/cwd/gone'' None
   \<and> FS_Lstat env0 ''gone'' = Inl (PathError ''lstat'' ''gone'' ENOENT)
   \<and> Save (Suc 0) env0 arch0 [] ''/gone'' ''gone'' None
        = ([EvOpenFile ''gone'', EvLstat ''gone''], Panic)"
proof -
  have a: "FS_Abs env0 ''gone'' = Inr ''/cwd/gone''" by (simp add: env0_def)
  have b: "FS_OpenFile env0 ''gone'' = Inl (PathError ''open'' ''gone'' ELOOP)"
    by (simp add: env0_def)
  have c: "isPathError_ELOOP_ENXIO (PathError ''open'' ''gone'' ELOOP)"
    by (simp add: isPathError_ELOOP_ENXIO_def)
  have d: "Select arch0 ''/cwd/gone'' None" by (simp add: arch0_def)
  have e: "FS_Lstat env0 ''gone'' = Inl (PathError ''lstat'' ''gone'' ENOENT)"
    by (simp add: env0_def)
  from Save_failed_lstat_closes_nil_file [OF a b c d e, of 0 "[]" "''/gone''" None] a b c d e
  show ?thesis by simp
qed




lemma statDir_ok:
  "statDir env tr dir = (tr', fi, None) \<Longrightarrow>
     tr' = tr @ [EvStat dir] \<and> stat_reports_directory env dir
       \<and> (\<exists>fi'. fi = Some fi' \<and> FS_Stat env dir = Inr fi')"
  by (auto simp: statDir_def stat_reports_directory_def Let_def split: sum.splits if_splits)

lemma statDir_fails:
  "\<not> stat_reports_directory env dir \<Longrightarrow> \<exists>fi err. statDir env tr dir = (tr @ [EvStat dir], fi, Some err)"
  by (auto simp: statDir_def stat_reports_directory_def Let_def split: sum.splits if_splits)

lemma SaveTree_intermediate_success:
  assumes "SaveTree_intermediate env arch saved snPath name fip oldNode tree = (tr', Ret (Inr tree'))"
  shows "fip \<noteq> [] \<and> stat_reports_directory env fip
       \<and> (\<exists>fi node tid.
             FS_Stat env fip = Inr fi \<and> NodeFromFileInfo env fip fi = (node, None)
             \<and> Tree_Insert env tree
                  ((if WithAtime arch then node else node\<lparr>AccessTime := ModTime node\<rparr>)
                     \<lparr>Name := name, Subtree := Some tid\<rparr>) = Inr tree')"
proof -
  obtain tr1 r where saved: "saved = (tr1, r)" by (cases saved)
  from assms saved obtain subtree where r: "r = Ret (Inr subtree)"
    by (cases r; auto simp: SaveTree_intermediate_def Let_def split: sum.splits)
  obtain tr2 tid nodeStats e where st: "saveTree env tr1 subtree = (tr2, tid, nodeStats, e)"
    by (cases "saveTree env tr1 subtree") auto
  from assms saved r st have e: "e = None" and fip: "fip \<noteq> []"
    by (auto simp: SaveTree_intermediate_def Let_def split: option.splits if_splits)
  obtain tr3 fio e3 where sd: "statDir env tr2 fip = (tr3, fio, e3)"
    by (cases "statDir env tr2 fip") auto
  from assms saved r st e fip sd have e3: "e3 = None"
    by (auto simp: SaveTree_intermediate_def Let_def split: option.splits)
  from statDir_ok [OF sd [unfolded e3]] obtain fi where
    dir: "stat_reports_directory env fip" and fio: "fio = Some fi" and fs: "FS_Stat env fip = Inr fi"
    by blast
  obtain node nerr where nf: "NodeFromFileInfo env fip fi = (node, nerr)"
    by (cases "NodeFromFileInfo env fip fi") auto
  from assms saved r st e fip sd e3 fio nf have nerr: "nerr = None"
    by (auto simp: SaveTree_intermediate_def Let_def nodeFromFileInfo_def errors_Wrap_def
          split: option.splits)
  from assms saved r st e fip sd e3 fio nf nerr
  have "Tree_Insert env tree
          ((if WithAtime arch then node else node\<lparr>AccessTime := ModTime node\<rparr>)
             \<lparr>Name := name, Subtree := Some tid\<rparr>) = Inr tree'"
    by (auto simp: SaveTree_intermediate_def Let_def nodeFromFileInfo_def errors_Wrap_def
          split: sum.splits if_splits)
  with fip dir fs nf nerr show ?thesis by blast
qed

lemma SaveTree_intermediate_error:
  assumes "fip = [] \<or> \<not> stat_reports_directory env fip"
  shows "\<exists>tr2 err. SaveTree_intermediate env arch (tr1, Ret (Inr subtree)) snPath name fip oldNode tree
           = (tr2, Ret (Inl err))"
proof -
  obtain tr2 tid nodeStats e where st: "saveTree env tr1 subtree = (tr2, tid, nodeStats, e)"
    by (cases "saveTree env tr1 subtree") auto
  show ?thesis
  proof (cases e)
    case (Some err)
    with st show ?thesis by (simp add: SaveTree_intermediate_def Let_def)
  next
    case None
    show ?thesis
    proof (cases "fip = []")
      case True
      with st None show ?thesis by (simp add: SaveTree_intermediate_def Let_def)
    next
      case False
      with assms have "\<not> stat_reports_directory env fip" by simp
      from statDir_fails [OF this, of tr2] obtain fi err where
        "statDir env tr2 fip = (tr2 @ [EvStat fip], fi, Some err)" by blast
      with st None False show ?thesis
        by (cases fi) (simp_all add: SaveTree_intermediate_def Let_def)
    qed
  qed
qed

lemma SaveTree_success_intermediates:
  "(SaveTree n env arch tr snPath atree previous = (tr', Ret (Inr tree))
      \<longrightarrow> intermediates_ok env atree)"
  "(SaveTree_nodes n env arch tr snPath nodes previous tree0 futs = (tr', Ret (Inr r))
      \<longrightarrow> (\<forall>p \<in> set nodes.
             pt_Path (snd p) = [] \<longrightarrow>
               pt_FileInfoPath (snd p) \<noteq> []
               \<and> stat_reports_directory env (pt_FileInfoPath (snd p))
               \<and> intermediates_ok env (snd p)))"
proof (induction n env arch tr snPath atree previous and n env arch tr snPath nodes previous tree0 futs
        arbitrary: tr' tree and tr' r
        rule: SaveTree_SaveTree_nodes.induct)
  case (1 n env arch tr snPath nodes pth fip previous)
  show ?case
  proof
    assume a: "SaveTree n env arch tr snPath (PathTree nodes pth fip) previous = (tr', Ret (Inr tree))"
    then obtain tr1 r where "SaveTree_nodes n env arch tr snPath nodes previous NewTree [] = (tr1, Ret (Inr r))"
      by (auto split: prod.splits exec.splits sum.splits)
    with "1.IH" show "intermediates_ok env (PathTree nodes pth fip)" by simp
  qed
next
  case (2 n env arch tr snPath previous tree0 futs)
  show ?case by simp
next
  case (3 n env arch tr snPath name subatree rest previous tree0 futs)
  show ?case
  proof
    assume a: "SaveTree_nodes n env arch tr snPath ((name, subatree) # rest) previous tree0 futs
                 = (tr', Ret (Inr r))"
    show "\<forall>p\<in>set ((name, subatree) # rest).
            pt_Path (snd p) = [] \<longrightarrow>
              pt_FileInfoPath (snd p) \<noteq> []
              \<and> stat_reports_directory env (pt_FileInfoPath (snd p))
              \<and> intermediates_ok env (snd p)"
    proof (cases "pt_Path subatree \<noteq> []")
      case True
      with a obtain tr1 futs' where
        l: "SaveTree_leaf n env arch tr snPath name (pt_Path subatree) previous futs = (tr1, Ret (Inr futs'))"
        and rest: "SaveTree_nodes n env arch tr1 snPath rest previous tree0 futs' = (tr', Ret (Inr r))"
        by (auto split: prod.splits exec.splits sum.splits)
      from "3.IH"(1) [OF True l [symmetric] refl refl] rest True
      show ?thesis by simp
    next
      case False
      define oldNode where "oldNode = Tree_Find env previous name"
      define oldSubtree where "oldSubtree = loadSubtree env oldNode"
      define saved where "saved = SaveTree n env arch tr (path_Join env snPath name) subatree oldSubtree"
      from a False obtain tr1 tree1 where
        i: "SaveTree_intermediate env arch saved snPath name (pt_FileInfoPath subatree) oldNode tree0
              = (tr1, Ret (Inr tree1))"
        and rest: "SaveTree_nodes n env arch tr1 snPath rest previous tree1 futs = (tr', Ret (Inr r))"
        by (auto simp: Let_def oldNode_def oldSubtree_def saved_def split: prod.splits exec.splits sum.splits)
      from SaveTree_intermediate_success [OF i]
      have ok: "pt_FileInfoPath subatree \<noteq> []" "stat_reports_directory env (pt_FileInfoPath subatree)"
        by simp_all
      from i obtain trs sub where s: "saved = (trs, Ret (Inr sub))"
        by (cases saved; auto simp: SaveTree_intermediate_def Let_def split: exec.splits sum.splits)
      from "3.IH"(2) [OF _ oldNode_def oldSubtree_def] False s
      have sub_ok: "intermediates_ok env subatree" by (simp add: saved_def)
      from "3.IH"(3) [OF _ oldNode_def oldSubtree_def saved_def i [symmetric] refl refl] False rest
      have "\<forall>p\<in>set rest.
            pt_Path (snd p) = [] \<longrightarrow>
              pt_FileInfoPath (snd p) \<noteq> []
              \<and> stat_reports_directory env (pt_FileInfoPath (snd p))
              \<and> intermediates_ok env (snd p)"
        by simp
      with ok sub_ok show ?thesis by simp
    qed
  qed
qed

text \<open>
  C6. When SaveTree succeeds, every intermediate node it went through has a
  FileInfoPath that is not empty and that a stat (symbolic links resolved) reports
  as a directory. Once the subtree of an intermediate node is archived, a
  FileInfoPath that is empty or no directory makes the step return an error; and when
  the step succeeds, the node inserted into the tree is the one nodeFromFileInfo
  builds from the stat of FileInfoPath, with Name set to the child key of the
  PathTree and Subtree to the stored subtree.
\<close>

theorem SaveTree_intermediate_needs_directory:
  "(SaveTree n env arch tr snPath atree previous = (tr', Ret (Inr tree))
      \<longrightarrow> intermediates_ok env atree)
   \<and> (fip = [] \<or> \<not> stat_reports_directory env fip \<longrightarrow>
        (\<exists>tr2 err. SaveTree_intermediate env arch (tr1, Ret (Inr subtree)) snPath name fip
                       oldNode tree0 = (tr2, Ret (Inl err))))
   \<and> (SaveTree_intermediate env arch saved snPath name fip oldNode tree0 = (tr3, Ret (Inr tree1))
        \<longrightarrow> fip \<noteq> [] \<and> stat_reports_directory env fip
            \<and> (\<exists>fi node tid.
                  FS_Stat env fip = Inr fi \<and> NodeFromFileInfo env fip fi = (node, None)
                  \<and> Tree_Insert env tree0
                       ((if WithAtime arch then node else node\<lparr>AccessTime := ModTime node\<rparr>)
                          \<lparr>Name := name, Subtree := Some tid\<rparr>) = Inr tree1))"
  using SaveTree_success_intermediates(1) [of n env arch tr snPath atree previous tr' tree]
    SaveTree_intermediate_error [of fip env arch tr1 subtree snPath name oldNode tree0]
    SaveTree_intermediate_success [of env arch saved snPath name fip oldNode tree0 tr3 tree1]
  by blast

lemma SaveTree_atree0:
  "(case SaveTree (Suc 0) env0 arch0 [] ''/'' atree0 None of
      (tr, Ret (Inr tree)) \<Rightarrow> map Name (Nodes tree) = [''home'', ''link'']
    | _ \<Rightarrow> False)"
  by code_simp

theorem SaveTree_intermediate_needs_directory_witness:
  "(\<exists>tr tree. SaveTree (Suc 0) env0 arch0 [] ''/'' atree0 None = (tr, Ret (Inr tree))
       \<and> map Name (Nodes tree) = [''home'', ''link''])
   \<and> intermediates_ok env0 atree0
   \<and> stat_reports_directory env0 ''home''
   \<and> \<not> stat_reports_directory env0 ''a''
   \<and> (\<exists>tr2 err. SaveTree_intermediate env0 arch0 ([], Ret (Inr NewTree)) ''/'' ''a'' ''a''
                    None NewTree = (tr2, Ret (Inl err)))"
proof -
  from SaveTree_atree0 obtain tr tree where
    s: "SaveTree (Suc 0) env0 arch0 [] ''/'' atree0 None = (tr, Ret (Inr tree))"
    and n: "map Name (Nodes tree) = [''home'', ''link'']"
    by (auto split: prod.splits exec.splits sum.splits)
  have d: "stat_reports_directory env0 ''home''" by code_simp
  have f: "\<not> stat_reports_directory env0 ''a''" by code_simp
  note T = SaveTree_intermediate_needs_directory
             [of "Suc 0" env0 arch0 "[]" "''/''" atree0 None tr tree "''a''" "[]" NewTree
                 "''a''" None NewTree]
  from T s have ok: "intermediates_ok env0 atree0" by blast
  from T f have e: "\<exists>tr2 err. SaveTree_intermediate env0 arch0 ([], Ret (Inr NewTree)) ''/'' ''a'' ''a''
                    None NewTree = (tr2, Ret (Inl err))"
    by blast
  from s n have x: "\<exists>tr tree. SaveTree (Suc 0) env0 arch0 [] ''/'' atree0 None = (tr, Ret (Inr tree))
       \<and> map Name (Nodes tree) = [''home'', ''link'']"
    by simp
  from x ok d f e show ?thesis by simp
qed














end
